theory Spec2Isabelle
  imports Main "HOL-Library.Char_ord" "HOL-Library.List_Lexorder" "HOL-Library.AList"
begin

section \<open>Python values\<close>

text \<open>
  The indices are plain Python dictionaries that are written with \<open>json.dump\<close> and read
  back with \<open>json.load\<close>, so an index in the store is a value of the JSON fragment of
  Python: \<open>None\<close>, booleans, integers, strings, lists and dictionaries with string keys.
  A dictionary is an association list in insertion order. Strings are lists of
  characters with code points below 256; floating point numbers are left out.
\<close>

datatype pyval =
    PNone
  | PBool bool
  | PInt int
  | PStr string
  | PList "pyval list"
  | PDict "(string \<times> pyval) list"

text \<open>Truth value of a Python object, as tested by \<open>if x:\<close> and \<open>not x\<close>.\<close>

fun truthy :: "pyval \<Rightarrow> bool" where
  "truthy PNone = False"
| "truthy (PBool b) = b"
| "truthy (PInt i) = (i \<noteq> 0)"
| "truthy (PStr s) = (s \<noteq> [])"
| "truthy (PList xs) = (xs \<noteq> [])"
| "truthy (PDict kvs) = (kvs \<noteq> [])"

text \<open>\<open>d[k] = v\<close> on a dictionary with string keys: an existing key keeps its position.\<close>

definition dict_set :: "(string \<times> 'v) list \<Rightarrow> string \<Rightarrow> 'v \<Rightarrow> (string \<times> 'v) list" where
  "dict_set d k v = AList.update k v d"

text \<open>What a call does: it returns a value or raises.\<close>

datatype exn = JSONDecodeError | AttributeError | TypeError | ValueError | OverflowError | OSError

datatype 'a outcome = Return 'a | Raise exn

text \<open>\<open>x.get(k, default)\<close>; only a dictionary has the method.\<close>

definition py_get :: "pyval \<Rightarrow> string \<Rightarrow> pyval \<Rightarrow> pyval outcome" where
  "py_get x k dflt =
     (case x of
        PDict d \<Rightarrow> Return (case map_of d k of None \<Rightarrow> dflt | Some v \<Rightarrow> v)
      | _ \<Rightarrow> Raise AttributeError)"

text \<open>\<open>for x in v\<close>: the elements of a list, the keys of a dictionary, the characters of a
  string; other values are not iterable.\<close>

fun py_iter :: "pyval \<Rightarrow> pyval list outcome" where
  "py_iter (PList xs) = Return xs"
| "py_iter (PDict kvs) = Return (map (\<lambda>kv. PStr (fst kv)) kvs)"
| "py_iter (PStr s) = Return (map (\<lambda>c. PStr [c]) s)"
| "py_iter v = Raise TypeError"

text \<open>\<open>str(n)\<close> for an integer.\<close>

fun str_nat :: "nat \<Rightarrow> string" where
  "str_nat n = (if n < 10 then [char_of (48 + n)] else str_nat (n div 10) @ [char_of (48 + n mod 10)])"

declare str_nat.simps [simp del]


section \<open>The syntax tree of a source file\<close>

text \<open>
  The nodes that \<open>ast.parse\<close> produces, as far as the extractors look at them. A node keeps
  the child nodes that can contain statements, in field order; expression, argument and
  alias nodes contain no statement and match none of the extractors' class tests, so
  they are not part of the walk here. \<open>AsyncFunctionDef\<close> is a class of its own in
  Python's \<open>ast\<close> module, not a subclass of \<open>FunctionDef\<close>.
\<close>

datatype expr = Name string | Attribute expr string | OtherExpr

datatype node =
    Module "node list"
  | FunctionDef string nat "node list"
  | AsyncFunctionDef string nat "node list"
  | ClassDef string nat "expr list" "node list"
  | Import "string list"
  | ImportFrom "string option" "string list"
  | OtherNode "node list"

fun iter_child_nodes :: "node \<Rightarrow> node list" where
  "iter_child_nodes (Module body) = body"
| "iter_child_nodes (FunctionDef name lineno body) = body"
| "iter_child_nodes (AsyncFunctionDef name lineno body) = body"
| "iter_child_nodes (ClassDef name lineno bases body) = body"
| "iter_child_nodes (Import names) = []"
| "iter_child_nodes (ImportFrom module names) = []"
| "iter_child_nodes (OtherNode body) = body"

lemma size_children: "sum_list (map (\<lambda>c. Suc (size c)) (iter_child_nodes n)) < Suc (size n)"
proof -
  have eq: "sum_list (map (\<lambda>c. Suc (size c)) ns) = size_list size ns" for ns :: "node list"
    by (induction ns) auto
  show ?thesis
    by (cases n) (simp_all add: eq)
qed

text \<open>\<open>ast.walk\<close>: breadth first, from a queue of nodes still to visit.\<close>

function walk :: "node list \<Rightarrow> node list" where
  "walk [] = []"
| "walk (n # todo) = n # walk (todo @ iter_child_nodes n)"
  by pat_completeness auto
termination
proof (relation "measure (\<lambda>todo. sum_list (map (\<lambda>c. Suc (size c)) todo))")
  show "wf (measure (\<lambda>todo. sum_list (map (\<lambda>c. Suc (size c)) todo)))" by simp
next
  fix n :: node and todo :: "node list"
  show "(todo @ iter_child_nodes n, n # todo)
      \<in> measure (\<lambda>todo. sum_list (map (\<lambda>c. Suc (size c)) todo))"
    using size_children [of n] by simp
qed

section \<open>The structural extractor\<close>

text \<open>Attributes read off a node; they are only read after the matching class test.\<close>

fun isinstance_FunctionDef :: "node \<Rightarrow> bool" where
  "isinstance_FunctionDef (FunctionDef name lineno body) = True"
| "isinstance_FunctionDef _ = False"

fun isinstance_AsyncFunctionDef :: "node \<Rightarrow> bool" where
  "isinstance_AsyncFunctionDef (AsyncFunctionDef name lineno body) = True"
| "isinstance_AsyncFunctionDef _ = False"

fun isinstance_Module :: "node \<Rightarrow> bool" where
  "isinstance_Module (Module body) = True"
| "isinstance_Module _ = False"

fun node_name :: "node \<Rightarrow> string" where
  "node_name (FunctionDef name lineno body) = name"
| "node_name (AsyncFunctionDef name lineno body) = name"
| "node_name (ClassDef name lineno bases body) = name"
| "node_name _ = []"

fun node_lineno :: "node \<Rightarrow> nat" where
  "node_lineno (FunctionDef name lineno body) = lineno"
| "node_lineno (AsyncFunctionDef name lineno body) = lineno"
| "node_lineno (ClassDef name lineno bases body) = lineno"
| "node_lineno _ = 0"

record func_info =
  func_name :: string
  func_line :: nat
  func_async :: bool

record class_info =
  class_name :: string
  class_line :: nat
  class_methods :: "(string \<times> nat) list"
  class_bases :: "string list"

text \<open>\<open>_get_name\<close>\<close>

fun get_name :: "expr \<Rightarrow> string" where
  "get_name (Name ident) = ident"
| "get_name (Attribute val attr) = get_name val @ ''.'' @ attr"
| "get_name OtherExpr = ''Unknown''"

text \<open>\<open>_extract_classes\<close>: every \<open>ClassDef\<close> of the walk, with the \<open>FunctionDef\<close> items of its body.\<close>

fun method_entry :: "node \<Rightarrow> (string \<times> nat) list" where
  "method_entry (FunctionDef name lineno body) = [(name, lineno)]"
| "method_entry _ = []"

fun class_entry :: "node \<Rightarrow> class_info list" where
  "class_entry (ClassDef name lineno bases body) =
     [\<lparr>class_name = name, class_line = lineno,
       class_methods = concat (map method_entry body),
       class_bases = map get_name bases\<rparr>]"
| "class_entry _ = []"

definition extract_classes :: "node \<Rightarrow> class_info list" where
  "extract_classes tree = concat (map class_entry (walk [tree]))"

text \<open>
  \<open>_extract_functions\<close>. The test reads \<open>getattr(node, '_parent', None)\<close>. The tree comes
  straight from \<open>ast.parse\<close> in \<open>_analyze_file\<close>, which sets no \<open>_parent\<close> attribute on any
  node, and nothing in the repository sets one: the lookup always takes its default.
\<close>

definition getattr_parent :: "node \<Rightarrow> node option" where
  "getattr_parent n = None"

definition function_entry :: "node \<Rightarrow> func_info list" where
  "function_entry n =
     (if isinstance_FunctionDef n then
        (let parent = getattr_parent n in
         if parent = None \<or> (case parent of Some p \<Rightarrow> isinstance_Module p | None \<Rightarrow> False)
         then [\<lparr>func_name = node_name n, func_line = node_lineno n,
                 func_async = isinstance_AsyncFunctionDef n\<rparr>]
         else [])
      else [])"

definition extract_functions :: "node \<Rightarrow> func_info list" where
  "extract_functions tree = concat (map function_entry (walk [tree]))"

text \<open>\<open>_extract_imports\<close>\<close>

fun import_entry :: "node \<Rightarrow> string list" where
  "import_entry (Import names) = names"
| "import_entry (ImportFrom module names) =
     map (\<lambda>alias. (case module of None \<Rightarrow> [] | Some m \<Rightarrow> m) @ ''.'' @ alias) names"
| "import_entry _ = []"

definition extract_imports :: "node \<Rightarrow> string list" where
  "extract_imports tree = concat (map import_entry (walk [tree]))"

section \<open>Strings\<close>

text \<open>\<open>str.isspace\<close> on the code points below 256.\<close>

definition isspace :: "char \<Rightarrow> bool" where
  "isspace c = (let n = (of_char c :: nat) in
     (9 \<le> n \<and> n \<le> 13) \<or> (28 \<le> n \<and> n \<le> 32) \<or> n = 133 \<or> n = 160)"

definition lstrip :: "string \<Rightarrow> string" where
  "lstrip s = dropWhile isspace s"

definition strip :: "string \<Rightarrow> string" where
  "strip s = rev (dropWhile isspace (rev (dropWhile isspace s)))"

text \<open>\<open>s.replace(a, b)\<close> for single characters \<open>a\<close> and \<open>b\<close>.\<close>

definition replace_char :: "char \<Rightarrow> char \<Rightarrow> string \<Rightarrow> string" where
  "replace_char a b s = map (\<lambda>c. if c = a then b else c) s"

definition endswith :: "string \<Rightarrow> string \<Rightarrow> bool" where
  "endswith s t = (length t \<le> length s \<and> drop (length s - length t) s = t)"

fun startswith :: "string \<Rightarrow> string \<Rightarrow> bool" where
  "startswith s [] = True"
| "startswith [] (c # t) = False"
| "startswith (d # s) (c # t) = (d = c \<and> startswith s t)"

text \<open>\<open>sub in s\<close>\<close>

fun contains :: "string \<Rightarrow> string \<Rightarrow> bool" where
  "contains [] sub = (sub = [])"
| "contains (c # s) sub = (startswith (c # s) sub \<or> contains s sub)"

text \<open>\<open>s.split('\n')\<close>: never empty, the last piece is what follows the last newline.\<close>

fun split_nl :: "string \<Rightarrow> string list" where
  "split_nl [] = [[]]"
| "split_nl (c # s) =
     (if c = CHR 0x0A then [] # split_nl s
      else (case split_nl s of [] \<Rightarrow> [[c]] | l # ls \<Rightarrow> (c # l) # ls))"

text \<open>\<open>'\n'.join(xs)\<close>\<close>

fun join_nl :: "string list \<Rightarrow> string" where
  "join_nl [] = []"
| "join_nl [x] = x"
| "join_nl (x # y # ys) = x @ [CHR 0x0A] @ join_nl (y # ys)"

text \<open>\<open>str.lower\<close> on the code points below 256: the ASCII capitals and the Latin-1 capitals
  (all of \<open>0xC0\<close> to \<open>0xDE\<close> but the multiplication sign) move up by 32.\<close>

definition lower_char :: "char \<Rightarrow> char" where
  "lower_char c = (let n = (of_char c :: nat) in
     if (65 \<le> n \<and> n \<le> 90) \<or> (192 \<le> n \<and> n \<le> 222 \<and> n \<noteq> 215) then char_of (n + 32) else c)"

definition lower :: "string \<Rightarrow> string" where
  "lower s = map lower_char s"

text \<open>
  The lines that iterating a text file yields, each with its newline but possibly the
  last. Text read in text mode has its line ends translated to the newline character.
\<close>

fun iter_lines :: "string \<Rightarrow> string list" where
  "iter_lines [] = []"
| "iter_lines (c # s) =
     (if c = CHR 0x0A then [c] # iter_lines s
      else (case iter_lines s of [] \<Rightarrow> [[c]] | l # ls \<Rightarrow> (c # l) # ls))"

section \<open>Display names\<close>

text \<open>\<open>_generate_saved_name\<close>\<close>

definition flatten :: "string \<Rightarrow> string" where
  "flatten p = replace_char (CHR 0x5C) (CHR ''_'') (replace_char (CHR ''/'') (CHR ''_'') p)"

definition generate_saved_name :: "string \<Rightarrow> string \<Rightarrow> string" where
  "generate_saved_name relative_path sdk_id =
     (let name = flatten relative_path;
          name = (if endswith name ''.py'' then take (length name - 3) name else name)
      in sdk_id @ ''_'' @ name @ ''.md'')"

section \<open>Class source extraction\<close>

text \<open>The search for the first line that contains \<open>class <name>\<close>, by index.\<close>

fun find_class_start :: "string \<Rightarrow> nat \<Rightarrow> string list \<Rightarrow> nat option" where
  "find_class_start needle i [] = None"
| "find_class_start needle i (line # rest) =
     (if contains line needle then Some i else find_class_start needle (Suc i) rest)"

definition indent :: "string \<Rightarrow> nat" where
  "indent line = length line - length (lstrip line)"

text \<open>The loop over the lines after the class line; it returns the lines it appends.\<close>

fun class_body :: "nat \<Rightarrow> string list \<Rightarrow> string list" where
  "class_body base_indent [] = []"
| "class_body base_indent (line # rest) =
     (if strip line = [] then line # class_body base_indent rest
      else if indent line \<le> base_indent \<and> strip line \<noteq> [] then []
      else line # class_body base_indent rest)"

text \<open>\<open>_extract_class_from_content\<close>; \<open>start_line\<close> is not used by the source either.\<close>

definition extract_class_from_content :: "string \<Rightarrow> string \<Rightarrow> int \<Rightarrow> string" where
  "extract_class_from_content content cname start_line =
     (let lines = split_nl content in
      case find_class_start (''class '' @ cname) 0 lines of
        None \<Rightarrow> ''Class '' @ cname @ '' not found in file''
      | Some class_start \<Rightarrow>
          (let base_indent = indent (lines ! class_start) in
           join_nl ((lines ! class_start)
                    # class_body base_indent (drop (Suc class_start) lines))))"

section \<open>The index store\<close>

text \<open>
  \<open>self.indices\<close> is a Python dictionary. \<open>index_sdk\<close> stores under a string, while
  \<open>load_indices\<close> stores under whatever value the record has at \<open>sdk_id\<close>, so the keys are
  Python values. Dictionary keys are compared with \<open>==\<close>, for which \<open>True\<close> equals \<open>1\<close> and
  \<open>False\<close> equals \<open>0\<close>; lists and dictionaries cannot be keys.
\<close>

type_synonym store = "(pyval \<times> pyval) list"

fun key_norm :: "pyval \<Rightarrow> pyval" where
  "key_norm (PBool b) = PInt (if b then 1 else 0)"
| "key_norm v = v"

definition key_eq :: "pyval \<Rightarrow> pyval \<Rightarrow> bool" where
  "key_eq a b = (key_norm a = key_norm b)"

fun hashable :: "pyval \<Rightarrow> bool" where
  "hashable (PList xs) = False"
| "hashable (PDict kvs) = False"
| "hashable v = True"

text \<open>\<open>d.get(k)\<close> on a dictionary keyed by Python values, as \<open>self.indices.get(k)\<close>.\<close>

fun store_get :: "(pyval \<times> 'v) list \<Rightarrow> pyval \<Rightarrow> 'v option" where
  "store_get [] k = None"
| "store_get ((k', v) # rest) k = (if key_eq k' k then Some v else store_get rest k)"

text \<open>\<open>d[k] = v\<close>, as \<open>self.indices[k] = v\<close>: an existing key keeps its place and its key object.\<close>

fun store_set :: "(pyval \<times> 'v) list \<Rightarrow> pyval \<Rightarrow> 'v \<Rightarrow> (pyval \<times> 'v) list" where
  "store_set [] k v = [(k, v)]"
| "store_set ((k', v') # rest) k v =
     (if key_eq k' k then (k', v) # rest else (k', v') # store_set rest k v)"


section \<open>The index builder\<close>

text \<open>
  What \<open>index_sdk\<close> reads from outside: the source tree through \<open>pathlib\<close>, and the library
  functions \<open>ast.parse\<close> and \<open>fnmatch.fnmatch\<close>. Paths are values of an ordered type, as
  \<open>Path\<close> objects are; \<open>None\<close> stands for a call that raises.
\<close>

datatype parse_result = Parsed node | SyntaxError | ParseException

record 'p source_tree =
  tree_glob :: "string \<Rightarrow> 'p list option"
  tree_relative :: "'p \<Rightarrow> string"
  tree_str :: "'p \<Rightarrow> string"
  tree_read_text :: "'p \<Rightarrow> string option"
  ast_parse :: "string \<Rightarrow> parse_result"
  fnmatch :: "string \<Rightarrow> string \<Rightarrow> bool"

text \<open>
  The configuration of one SDK; a field is \<open>None\<close> when the key is absent. The pattern
  lists are lists of strings, as in \<open>sdks.yaml\<close>.
\<close>

record config =
  cfg_name :: "pyval option"
  cfg_description :: "pyval option"
  cfg_concepts :: "pyval option"
  cfg_file_patterns :: "string list option"
  cfg_exclude_patterns :: "string list option"

record file_info =
  relative_path :: string
  original_path :: string
  info_classes :: "class_info list"
  info_functions :: "func_info list"
  info_imports :: "string list"
  size_chars :: nat
  line_count :: nat

text \<open>\<open>_should_exclude\<close>\<close>

definition should_exclude :: "'p source_tree \<Rightarrow> 'p \<Rightarrow> string list \<Rightarrow> bool" where
  "should_exclude w file_path exclude_patterns =
     list_ex (\<lambda>pattern. fnmatch w (tree_relative w file_path) pattern
                        \<or> fnmatch w (tree_str w file_path) pattern) exclude_patterns"

text \<open>
  \<open>_analyze_file\<close>; \<open>None\<close> when it raises (reading fails, or the parser raises something
  other than \<open>SyntaxError\<close>).
\<close>

definition analyze_file :: "'p source_tree \<Rightarrow> 'p \<Rightarrow> file_info option" where
  "analyze_file w file_path =
     (case tree_read_text w file_path of
        None \<Rightarrow> None
      | Some content \<Rightarrow>
          (let info = \<lparr>relative_path = tree_relative w file_path,
                       original_path = tree_str w file_path,
                       info_classes = [], info_functions = [], info_imports = [],
                       size_chars = length content,
                       line_count = count_list content (CHR 0x0A) + 1\<rparr>
           in case ast_parse w content of
                Parsed tree \<Rightarrow>
                  Some (info\<lparr>info_classes := extract_classes tree,
                              info_functions := extract_functions tree,
                              info_imports := extract_imports tree\<rparr>)
              | SyntaxError \<Rightarrow> Some info
              | ParseException \<Rightarrow> None))"

text \<open>The dictionaries of \<open>_analyze_file\<close> and of the index, as Python values.\<close>

definition method_dict :: "string \<times> nat \<Rightarrow> pyval" where
  "method_dict m = PDict [(''name'', PStr (fst m)), (''line'', PInt (int (snd m)))]"

definition class_dict :: "class_info \<Rightarrow> pyval" where
  "class_dict c = PDict [(''name'', PStr (class_name c)), (''line'', PInt (int (class_line c))),
                         (''methods'', PList (map method_dict (class_methods c))),
                         (''bases'', PList (map PStr (class_bases c)))]"

definition func_dict :: "func_info \<Rightarrow> pyval" where
  "func_dict f = PDict [(''name'', PStr (func_name f)), (''line'', PInt (int (func_line f))),
                        (''async'', PBool (func_async f))]"

definition file_dict :: "file_info \<Rightarrow> string \<Rightarrow> pyval" where
  "file_dict info saved_name =
     PDict [(''relative_path'', PStr (relative_path info)),
            (''original_path'', PStr (original_path info)),
            (''classes'', PList (map class_dict (info_classes info))),
            (''functions'', PList (map func_dict (info_functions info))),
            (''imports'', PList (map PStr (info_imports info))),
            (''size'', PInt (int (size_chars info))),
            (''lines'', PInt (int (line_count info))),
            (''saved_as'', PStr saved_name)]"

text \<open>The parts of the index that the loop over the files fills.\<close>

record index_parts =
  ix_files :: "pyval list"
  ix_classes :: "(string \<times> pyval) list"
  ix_functions :: "(string \<times> pyval) list"
  ix_file_map :: "(string \<times> pyval) list"

definition add_class :: "string \<Rightarrow> class_info \<Rightarrow> (string \<times> pyval) list \<Rightarrow> (string \<times> pyval) list" where
  "add_class saved_name c d =
     dict_set d (class_name c)
       (PDict [(''file'', PStr saved_name), (''line'', PInt (int (class_line c))),
               (''methods'', PList (map method_dict (class_methods c)))])"

definition add_function :: "string \<Rightarrow> func_info \<Rightarrow> (string \<times> pyval) list \<Rightarrow> (string \<times> pyval) list" where
  "add_function saved_name f d =
     dict_set d (func_name f)
       (PDict [(''file'', PStr saved_name), (''line'', PInt (int (func_line f)))])"

text \<open>One turn of the loop over the files: a file that is excluded or that raises is skipped.\<close>

definition process_file ::
  "'p source_tree \<Rightarrow> string \<Rightarrow> string list \<Rightarrow> 'p \<Rightarrow> index_parts \<Rightarrow> index_parts" where
  "process_file w sdk_id exclude_patterns file_path ix =
     (if should_exclude w file_path exclude_patterns then ix
      else case analyze_file w file_path of
             None \<Rightarrow> ix
           | Some info \<Rightarrow>
               (let saved_name = generate_saved_name (relative_path info) sdk_id in
                \<lparr>ix_files = ix_files ix @ [file_dict info saved_name],
                 ix_classes = fold (add_class saved_name) (info_classes info) (ix_classes ix),
                 ix_functions = fold (add_function saved_name) (info_functions info) (ix_functions ix),
                 ix_file_map = dict_set (ix_file_map ix) saved_name (PStr (relative_path info))\<rparr>))"

text \<open>All the patterns' matches, or \<open>None\<close> when a \<open>glob\<close> raises.\<close>

fun glob_all :: "'p source_tree \<Rightarrow> string list \<Rightarrow> 'p list option" where
  "glob_all w [] = Some []"
| "glob_all w (pattern # patterns) =
     (case tree_glob w pattern of
        None \<Rightarrow> None
      | Some found \<Rightarrow> (case glob_all w patterns of None \<Rightarrow> None | Some others \<Rightarrow> Some (found @ others)))"

text \<open>
  \<open>index_sdk\<close>, on the store \<open>self.indices\<close>: it returns the store it leaves and the index,
  or the exception of a \<open>glob\<close>. The coroutine awaits nothing but \<open>_analyze_file\<close>, which
  itself awaits nothing, so a call runs from start to end without interleaving.
\<close>

definition index_sdk ::
  "('p::linorder) source_tree \<Rightarrow> store \<Rightarrow> string \<Rightarrow> config \<Rightarrow> store \<times> pyval outcome" where
  "index_sdk w indices sdk_id cfg =
     (let file_patterns = (case cfg_file_patterns cfg of None \<Rightarrow> [''**/*.py''] | Some ps \<Rightarrow> ps);
          exclude_patterns = (case cfg_exclude_patterns cfg of None \<Rightarrow> [] | Some ps \<Rightarrow> ps)
      in case glob_all w file_patterns of
           None \<Rightarrow> (indices, Raise ValueError)
         | Some all_files \<Rightarrow>
             (let ix = fold (process_file w sdk_id exclude_patterns) (sort (remdups all_files))
                         \<lparr>ix_files = [], ix_classes = [], ix_functions = [], ix_file_map = []\<rparr>;
                  index = PDict [(''sdk_id'', PStr sdk_id),
                                 (''name'', (case cfg_name cfg of None \<Rightarrow> PStr sdk_id | Some v \<Rightarrow> v)),
                                 (''description'', (case cfg_description cfg of None \<Rightarrow> PStr [] | Some v \<Rightarrow> v)),
                                 (''files'', PList (ix_files ix)),
                                 (''classes'', PDict (ix_classes ix)),
                                 (''functions'', PDict (ix_functions ix)),
                                 (''imports'', PDict []),
                                 (''file_map'', PDict (ix_file_map ix)),
                                 (''concepts'', (case cfg_concepts cfg of None \<Rightarrow> PDict [] | Some v \<Rightarrow> v))]
              in (store_set indices (PStr sdk_id) index, Return index)))"

text \<open>\<open>get_index\<close>\<close>

definition get_index :: "store \<Rightarrow> pyval \<Rightarrow> pyval option" where
  "get_index indices sdk_id = store_get indices sdk_id"

section \<open>Saving and loading the store\<close>

text \<open>
  A file of the index directory is modelled by what \<open>json.load\<close> makes of it: the value it
  decodes to, or a file that is not JSON, or one that cannot be opened. The directory is a
  list of named files in the order in which the operating system enumerates them.
\<close>

datatype record_file = JsonText pyval | NotJson | Unreadable

type_synonym index_dir = "(string \<times> record_file) list"






text \<open>\<open>input_dir.glob("*_index.json")\<close>\<close>

definition is_index_file :: "string \<Rightarrow> bool" where
  "is_index_file name = (endswith name ''_index.json'' \<and> CHR ''/'' \<notin> set name)"

definition glob_index_files :: "index_dir \<Rightarrow> index_dir" where
  "glob_index_files d = filter (\<lambda>entry. is_index_file (fst entry)) d"

text \<open>The loop of \<open>load_indices\<close> over the files found.\<close>

fun load_records :: "index_dir \<Rightarrow> store \<Rightarrow> store \<times> unit outcome" where
  "load_records [] indices = (indices, Return ())"
| "load_records ((name, file) # rest) indices =
     (case file of
        NotJson \<Rightarrow> (indices, Raise JSONDecodeError)
      | Unreadable \<Rightarrow> (indices, Raise OSError)
      | JsonText index \<Rightarrow>
          (case py_get index ''sdk_id'' PNone of
             Raise e \<Rightarrow> (indices, Raise e)
           | Return sdk_id \<Rightarrow>
               if truthy sdk_id then
                 (if hashable sdk_id then load_records rest (store_set indices sdk_id index)
                  else (indices, Raise TypeError))
               else load_records rest indices))"

text \<open>\<open>load_indices\<close>\<close>

definition load_indices :: "index_dir option \<Rightarrow> store \<Rightarrow> store \<times> unit outcome" where
  "load_indices input_dir indices =
     (case input_dir of
        None \<Rightarrow> (indices, Return ())
      | Some d \<Rightarrow> load_records (glob_index_files d) indices)"

text \<open>
  An entry of the store as \<open>index_sdk\<close> leaves it for an identifier that is not empty and
  has no \<open>/\<close>: the key is that string and the index is a dictionary with the same
  string at \<open>sdk_id\<close>.
\<close>

definition store_entry_ok :: "pyval \<times> pyval \<Rightarrow> bool" where
  "store_entry_ok e =
     (case fst e of
        PStr s \<Rightarrow> s \<noteq> [] \<and> CHR ''/'' \<notin> set s \<and> py_get (snd e) ''sdk_id'' PNone = Return (PStr s)
      | _ \<Rightarrow> False)"


definition norm_entry :: "pyval \<times> pyval \<Rightarrow> pyval \<times> pyval" where
  "norm_entry e = (key_norm (fst e), snd e)"

section \<open>The search engine\<close>

text \<open>
  What the search engine reads from outside. \<open>re_compile query ignorecase\<close> is
  \<open>re.compile\<close> with or without \<open>re.IGNORECASE\<close>: a compiled pattern, given by what its
  \<open>search\<close> finds in a line, or \<open>re.error\<close>, or another exception. \<open>docs sdk_id\<close> is the
  directory \<open>data/<sdk_id>\<close>, \<open>None\<close> when it does not exist, and maps a file name to the
  document of that name. A document is the lines that iterating the open file yields,
  and the message of the exception that ends the reading, if one does.
\<close>

datatype re_result = Compiled "string \<Rightarrow> bool" | ReError | ReException

datatype document = Document "string list" "string option"

record search_world =
  re_compile :: "string \<Rightarrow> bool \<Rightarrow> re_result"
  docs :: "string \<Rightarrow> (string \<Rightarrow> document option) option"

record search_options =
  opt_case_sensitive :: "bool option"
  opt_max_results_per_file :: "int option"
  opt_regex :: "bool option"

text \<open>The search pattern: a compiled regular expression when \<open>is_regex\<close>, else a string.\<close>

datatype pattern = Regex "string \<Rightarrow> bool" | Literal string

text \<open>\<open>_line_matches\<close>\<close>

fun line_matches :: "string \<Rightarrow> pattern \<Rightarrow> bool \<Rightarrow> bool" where
  "line_matches line (Regex search) case_sensitive = search line"
| "line_matches line (Literal pattern) case_sensitive =
     (let search_line = (if case_sensitive then line else lower line)
      in contains search_line pattern)"

text \<open>The loop of \<open>_search_file\<close> over the numbered lines, with the matches so far.\<close>

fun scan_lines ::
  "pattern \<Rightarrow> bool \<Rightarrow> int \<Rightarrow> nat \<Rightarrow> string list \<Rightarrow> string option \<Rightarrow> string list \<Rightarrow> string list" where
  "scan_lines pattern case_sensitive max_results line_num [] failure matches =
     (case failure of
        None \<Rightarrow> matches
      | Some e \<Rightarrow> [''Error reading file: '' @ e])"
| "scan_lines pattern case_sensitive max_results line_num (line # rest) failure matches =
     (if line_matches line pattern case_sensitive then
        (let matches = matches @ [''Line '' @ str_nat line_num @ '': '' @ strip line] in
         if int (length matches) \<ge> max_results then matches
         else scan_lines pattern case_sensitive max_results (Suc line_num) rest failure matches)
      else scan_lines pattern case_sensitive max_results (Suc line_num) rest failure matches)"

text \<open>\<open>_search_file\<close>\<close>

fun search_file :: "document \<Rightarrow> pattern \<Rightarrow> bool \<Rightarrow> int \<Rightarrow> string list" where
  "search_file (Document lines failure) pattern case_sensitive max_results =
     scan_lines pattern case_sensitive max_results 1 lines failure []"

type_synonym results = "(string \<times> string list) list"

text \<open>The loop of \<open>search_code\<close> over the file entries of the index.\<close>

fun search_files ::
  "(string \<Rightarrow> document option) \<Rightarrow> pattern \<Rightarrow> bool \<Rightarrow> int \<Rightarrow> pyval list \<Rightarrow> results \<Rightarrow> results outcome" where
  "search_files sdk_data_dir pattern case_sensitive max_results [] results = Return results"
| "search_files sdk_data_dir pattern case_sensitive max_results (file_info # rest) results =
     (case py_get file_info ''saved_as'' PNone of
        Raise e \<Rightarrow> Raise e
      | Return saved_name \<Rightarrow>
          if \<not> truthy saved_name
          then search_files sdk_data_dir pattern case_sensitive max_results rest results
          else (case saved_name of
                  PStr name \<Rightarrow>
                    (case sdk_data_dir name of
                       None \<Rightarrow> search_files sdk_data_dir pattern case_sensitive max_results rest results
                     | Some doc \<Rightarrow>
                         (let matches = search_file doc pattern case_sensitive max_results in
                          search_files sdk_data_dir pattern case_sensitive max_results rest
                            (if matches \<noteq> [] then dict_set results name matches else results)))
                | _ \<Rightarrow> Raise TypeError))"

text \<open>\<open>search_code\<close>\<close>

definition search_code ::
  "search_world \<Rightarrow> store \<Rightarrow> pyval \<Rightarrow> string \<Rightarrow> search_options \<Rightarrow> results outcome" where
  "search_code w indices sdk_id query options =
     (case get_index indices sdk_id of
        None \<Rightarrow> Return []
      | Some index \<Rightarrow>
          if \<not> truthy index then Return []
          else
            (let case_sensitive = (case opt_case_sensitive options of None \<Rightarrow> False | Some b \<Rightarrow> b);
                 max_results_per_file = (case opt_max_results_per_file options of None \<Rightarrow> 10 | Some n \<Rightarrow> n);
                 regex = (case opt_regex options of None \<Rightarrow> False | Some b \<Rightarrow> b);
                 search = (\<lambda>pattern.
                    case sdk_id of
                      PStr sdk \<Rightarrow>
                        (case docs w sdk of
                           None \<Rightarrow> Return []
                         | Some sdk_data_dir \<Rightarrow>
                             (case py_get index ''files'' (PList []) of
                                Raise e \<Rightarrow> Raise e
                              | Return files \<Rightarrow>
                                  (case py_iter files of
                                     Raise e \<Rightarrow> Raise e
                                   | Return file_infos \<Rightarrow>
                                       search_files sdk_data_dir pattern case_sensitive
                                         max_results_per_file file_infos [])))
                    | _ \<Rightarrow> Raise TypeError)
             in if regex then
                  (case re_compile w query (\<not> case_sensitive) of
                     ReError \<Rightarrow> Return [(''error'', [''Invalid regex pattern''])]
                   | ReException \<Rightarrow> Raise OverflowError
                   | Compiled f \<Rightarrow> search (Regex f))
                else search (Literal (if \<not> case_sensitive then lower query else query))))"

text \<open>\<open>search_all_sdks\<close>: the loop over the keys of the store, then the function.\<close>

fun search_sdks ::
  "search_world \<Rightarrow> store \<Rightarrow> string \<Rightarrow> search_options \<Rightarrow> pyval list
     \<Rightarrow> (pyval \<times> results) list \<Rightarrow> (pyval \<times> results) list outcome" where
  "search_sdks w indices query options [] all_results = Return all_results"
| "search_sdks w indices query options (sdk_id # rest) all_results =
     (case search_code w indices sdk_id query options of
        Raise e \<Rightarrow> Raise e
      | Return results \<Rightarrow>
          search_sdks w indices query options rest
            (if results \<noteq> [] \<and> results \<noteq> [] then store_set all_results sdk_id results
             else all_results))"

definition search_all_sdks ::
  "search_world \<Rightarrow> store \<Rightarrow> string \<Rightarrow> search_options \<Rightarrow> (pyval \<times> results) list outcome" where
  "search_all_sdks w indices query options =
     search_sdks w indices query options (map fst indices) []"

text \<open>
  \<open>find_examples\<close>: the five patterns, the loop over the items of one query's results (a
  file that is not yet in \<open>all_results\<close> starts from the empty list, then the list is
  extended in place), and the loop over the patterns.
\<close>

definition example_patterns :: "string \<Rightarrow> string list" where
  "example_patterns topic =
     [''def.*'' @ topic,
      ''class.*'' @ topic,
      topic @ [CHR 0x5C] @ ''s*'' @ [CHR 0x5C] @ ''('',
      ''@'' @ topic,
      ''self'' @ [CHR 0x5C] @ ''.'' @ topic]"

fun extend_results :: "results \<Rightarrow> results \<Rightarrow> results" where
  "extend_results all_results [] = all_results"
| "extend_results all_results ((file, matches) # rest) =
     extend_results
       (dict_set all_results file
          ((case map_of all_results file of None \<Rightarrow> [] | Some found \<Rightarrow> found) @ matches))
       rest"

definition example_options :: search_options where
  "example_options =
     \<lparr>opt_case_sensitive = None, opt_max_results_per_file = Some 5, opt_regex = Some True\<rparr>"

fun run_patterns ::
  "search_world \<Rightarrow> store \<Rightarrow> string \<Rightarrow> string list \<Rightarrow> results \<Rightarrow> results outcome" where
  "run_patterns w indices sdk_id [] all_results = Return all_results"
| "run_patterns w indices sdk_id (pattern # rest) all_results =
     (case search_code w indices (PStr sdk_id) pattern
             example_options of
        Raise e \<Rightarrow> Raise e
      | Return results \<Rightarrow> run_patterns w indices sdk_id rest (extend_results all_results results))"

definition find_examples :: "search_world \<Rightarrow> store \<Rightarrow> string \<Rightarrow> string \<Rightarrow> results outcome" where
  "find_examples w indices sdk_id topic = run_patterns w indices sdk_id (example_patterns topic) []"

text \<open>
  What the results below say about a result dictionary: its keys are distinct and no
  list of matches is longer than \<open>n\<close>; the matches recorded for a file, none if the file
  is not a key; and the result of a search with a malformed regular expression.
\<close>

definition results_ok :: "int \<Rightarrow> results \<Rightarrow> bool" where
  "results_ok n rs = (distinct (map fst rs) \<and> (\<forall>e \<in> set rs. int (length (snd e)) \<le> n))"

definition matches_of :: "results \<Rightarrow> string \<Rightarrow> string list" where
  "matches_of rs file = (case map_of rs file of None \<Rightarrow> [] | Some m \<Rightarrow> m)"

definition error_results :: results where
  "error_results = [(''error'', [''Invalid regex pattern''])]"

section \<open>A single-file SDK\<close>

text \<open>
  The scenario of the specification: one file with the type \<open>Widget\<close> at line 1, its member
  function \<open>run\<close> at line 5 and the top-level function \<open>helper\<close>, declared asynchronous, at
  line 20, indexed with a configuration that sets nothing.
\<close>

definition widget_source :: string where
  "widget_source = ''class Widget:'' @ replicate 4 (CHR 0x0A) @ ''    def run(self):'' @ [CHR 0x0A]
      @ ''        pass'' @ replicate 14 (CHR 0x0A) @ ''async def helper():'' @ [CHR 0x0A]
      @ ''    pass'' @ [CHR 0x0A]"

definition widget_sdk :: "string source_tree" where
  "widget_sdk =
     \<lparr>tree_glob = (\<lambda>pattern. Some [''/sdk/widget.py'']),
      tree_relative = (\<lambda>p. drop 5 p),
      tree_str = (\<lambda>p. p),
      tree_read_text = (\<lambda>p. Some widget_source),
      ast_parse = (\<lambda>content. Parsed (Module [ClassDef ''Widget'' 1 [] [FunctionDef ''run'' 5 []],
                                                 AsyncFunctionDef ''helper'' 20 []])),
      fnmatch = (\<lambda>name pattern. False)\<rparr>"

definition default_config :: config where
  "default_config = \<lparr>cfg_name = None, cfg_description = None, cfg_concepts = None,
                      cfg_file_patterns = None, cfg_exclude_patterns = None\<rparr>"

text \<open>A source tree in which no file matches.\<close>

definition empty_sdk :: "string source_tree" where
  "empty_sdk =
     \<lparr>tree_glob = (\<lambda>pattern. Some []),
      tree_relative = (\<lambda>p. p),
      tree_str = (\<lambda>p. p),
      tree_read_text = (\<lambda>p. None),
      ast_parse = (\<lambda>content. SyntaxError),
      fnmatch = (\<lambda>name pattern. False)\<rparr>"

definition empty_index :: pyval where
  "empty_index = PDict [(''sdk_id'', PStr ''sdk''), (''name'', PStr ''sdk''), (''description'', PStr []),
                        (''files'', PList []), (''classes'', PDict []), (''functions'', PDict []),
                        (''imports'', PDict []), (''file_map'', PDict []), (''concepts'', PDict [])]"


text \<open>
  The store after indexing the single-file SDK, and its document as \<open>_save_sdk_files\<close>
  writes it: the relative path as a header, then the source in a code fence.
\<close>

definition widget_store :: store where
  "widget_store = fst (index_sdk widget_sdk [] ''sdk'' default_config)"

definition format_document :: "string \<Rightarrow> string \<Rightarrow> string" where
  "format_document rel content =
     ''# '' @ rel @ [CHR 0x0A, CHR 0x0A] @ ''```python'' @ [CHR 0x0A] @ content @ [CHR 0x0A] @ ''```''"

text \<open>
  A regular expression engine for the examples. It knows the five patterns that
  \<open>find_examples\<close> makes of the topic \<open>run\<close>, each as a sequence of characters, \<open>.*\<close> and
  \<open>\s*\<close>, searched anywhere in the line; ignoring case is lowering the line, the patterns
  being in lower case. To any other pattern it answers \<open>re.error\<close>; the only other
  pattern used below is the unbalanced parenthesis \<open>(\<close>.
\<close>

datatype re_item = Ch char | AnyStar | SpaceStar

fun match_items :: "re_item list \<Rightarrow> string \<Rightarrow> bool" where
  "match_items [] s = True"
| "match_items (Ch c # items) [] = False"
| "match_items (Ch c # items) (d # s) = (c = d \<and> match_items items s)"
| "match_items (AnyStar # items) [] = match_items items []"
| "match_items (AnyStar # items) (d # s) =
     (match_items items (d # s) \<or> (d \<noteq> CHR 0x0A \<and> match_items (AnyStar # items) s))"
| "match_items (SpaceStar # items) [] = match_items items []"
| "match_items (SpaceStar # items) (d # s) =
     (match_items items (d # s) \<or> (isspace d \<and> match_items (SpaceStar # items) s))"

fun search_items :: "re_item list \<Rightarrow> string \<Rightarrow> bool" where
  "search_items items [] = match_items items []"
| "search_items items (d # s) = (match_items items (d # s) \<or> search_items items s)"

definition example_table :: "(string \<times> re_item list) list" where
  "example_table =
     [(''def.*run'', map Ch ''def'' @ [AnyStar] @ map Ch ''run''),
      (''class.*run'', map Ch ''class'' @ [AnyStar] @ map Ch ''run''),
      (''run'' @ [CHR 0x5C] @ ''s*'' @ [CHR 0x5C] @ ''('', map Ch ''run'' @ [SpaceStar] @ map Ch ''(''),
      (''@run'', map Ch ''@run''),
      (''self'' @ [CHR 0x5C] @ ''.run'', map Ch ''self.run'')]"

definition example_re :: "string \<Rightarrow> bool \<Rightarrow> re_result" where
  "example_re query ignorecase =
     (case map_of example_table query of
        None \<Rightarrow> ReError
      | Some items \<Rightarrow> Compiled (\<lambda>line. search_items items (if ignorecase then lower line else line)))"

definition example_world :: search_world where
  "example_world =
     \<lparr>re_compile = example_re,
      docs = (\<lambda>sdk. if sdk = ''sdk''
                then Some (\<lambda>name. if name = ''sdk_widget.md''
                     then Some (Document (iter_lines (format_document ''widget.py'' widget_source)) None)
                     else None)
                else None)\<rparr>"

section \<open>Results about the structural extractor\<close>

text \<open>
  C2: the claim says that a function declaration is reported as a callable of the file
  exactly when its immediate parent is the file root, so that a method is never reported.
  On a file whose only function is the method \<open>run\<close> of the class \<open>Widget\<close>, the extractor
  reports \<open>run\<close> as a callable of the file.
\<close>

theorem extract_functions_reports_method:
  "extract_functions (Module [ClassDef ''Widget'' 1 [] [FunctionDef ''run'' 5 []]])
     = [\<lparr>func_name = ''run'', func_line = 5, func_async = False\<rparr>]"
  by (simp add: extract_functions_def function_entry_def getattr_parent_def)

section \<open>Results about display names\<close>









section \<open>Results about class source extraction\<close>

lemma class_body_takeWhile:
  "class_body base ls = takeWhile (\<lambda>l. strip l = [] \<or> base < indent l) ls"
  by (induction ls) auto

lemma find_class_start_append:
  assumes "\<forall>l \<in> set pre. \<not> contains l needle" and "contains decl needle"
  shows "find_class_start needle i (pre @ decl # rest) = Some (i + length pre)"
  using assms by (induction pre arbitrary: i) auto

text \<open>
  C8, as stated: for a document whose named type is declared at indentation 0, the
  extraction returns the declaration line of that type and its block. In a document
  that declares \<open>WidgetBase\<close> before \<open>Widget\<close>, both at indentation 0, the line
  \<open>class WidgetBase:\<close> contains the text \<open>class Widget\<close>, and the extraction for \<open>Widget\<close>
  returns the block of \<open>WidgetBase\<close>.
\<close>

theorem extract_class_first_match:
  "extract_class_from_content
     (''class WidgetBase:'' @ [CHR 0x0A] @ ''    a = 1'' @ [CHR 0x0A]
        @ ''class Widget:'' @ [CHR 0x0A] @ ''    b = 2'')
     ''Widget'' 3
   = ''class WidgetBase:'' @ [CHR 0x0A] @ ''    a = 1''
   \<and> extract_class_from_content
     (''class WidgetBase:'' @ [CHR 0x0A] @ ''    a = 1'' @ [CHR 0x0A]
        @ ''class Widget:'' @ [CHR 0x0A] @ ''    b = 2'')
     ''Widget'' 3
   \<noteq> ''class Widget:'' @ [CHR 0x0A] @ ''    b = 2''"
  by (simp add: extract_class_from_content_def indent_def lstrip_def strip_def isspace_def)

text \<open>
  C8, amended: let the first line of the document that contains the text
  \<open>class <name>\<close>, which is the line that the scan takes for the declaration, have
  indentation 0. Then the extraction returns that line followed by the longest run of
  following lines that are blank or indented by more than 0, joined by newlines: it stops
  at, and leaves out, the first non-blank line at indentation 0.
\<close>

theorem extract_class_block:
  assumes "split_nl content = pre @ decl # rest"
    and "\<forall>l \<in> set pre. \<not> contains l (''class '' @ cname)"
    and "contains decl (''class '' @ cname)"
    and "indent decl = 0"
  shows "extract_class_from_content content cname start_line
       = join_nl (decl # takeWhile (\<lambda>l. strip l = [] \<or> 0 < indent l) rest)"
  using assms find_class_start_append [of pre "''class '' @ cname" decl 0 rest]
  by (simp add: extract_class_from_content_def class_body_takeWhile nth_append)


theorem extract_class_block_witness:
  "extract_class_from_content
     (''import x'' @ [CHR 0x0A] @ ''class Widget:'' @ [CHR 0x0A] @ ''    def run(self):'' @ [CHR 0x0A]
        @ [CHR 0x0A] @ ''        pass'' @ [CHR 0x0A] @ ''y = 1'' @ [CHR 0x0A] @ ''    z = 2'')
     ''Widget'' 2
   = ''class Widget:'' @ [CHR 0x0A] @ ''    def run(self):'' @ [CHR 0x0A] @ [CHR 0x0A] @ ''        pass''"
  using extract_class_block [of
      "''import x'' @ [CHR 0x0A] @ ''class Widget:'' @ [CHR 0x0A] @ ''    def run(self):'' @ [CHR 0x0A]
        @ [CHR 0x0A] @ ''        pass'' @ [CHR 0x0A] @ ''y = 1'' @ [CHR 0x0A] @ ''    z = 2''"
      "[''import x'']" "''class Widget:''"
      "[''    def run(self):'', [], ''        pass'', ''y = 1'', ''    z = 2'']" "''Widget''" 2]
  by (simp add: indent_def lstrip_def strip_def isspace_def)


section \<open>Results about the index builder\<close>

text \<open>
  C1: the claim says that indexing the single-file SDK of the scenario gives the entry
  \<open>helper\<close> (line 20, asynchronous) in the callables of the index. The walk only takes
  nodes of class \<open>FunctionDef\<close>, which an asynchronous declaration is not, so the index has
  no entry \<open>helper\<close>; its only callable is the method \<open>run\<close>, and an entry of the callables
  map has a file and a line but no flag.
\<close>

theorem index_sdk_async_helper_missing:
  "(case snd (index_sdk widget_sdk [] ''sdk'' default_config) of
      Return index \<Rightarrow> py_get index ''functions'' PNone
    | Raise e \<Rightarrow> Raise e)
   = Return (PDict [(''run'', PDict [(''file'', PStr ''sdk_widget.md''), (''line'', PInt 5)])])"
  by (simp add: index_sdk_def default_config_def widget_sdk_def process_file_def should_exclude_def
      analyze_file_def extract_functions_def function_entry_def getattr_parent_def
      add_function_def dict_set_def generate_saved_name_def flatten_def replace_char_def
      endswith_def py_get_def Let_def)

lemma store_get_store_set:
  "store_get (store_set st k v) k' = (if key_eq k k' then Some v else store_get st k')"
  by (induction st) (auto simp: key_eq_def)

text \<open>
  C3, as stated: \<open>index_sdk\<close> leaves the store as it was. Starting from the empty store,
  the store has an entry for the SDK after the call.
\<close>

theorem index_sdk_changes_store:
  "get_index (fst (index_sdk widget_sdk [] ''sdk'' default_config)) (PStr ''sdk'')
     \<noteq> get_index [] (PStr ''sdk'')"
  by (simp add: index_sdk_def default_config_def widget_sdk_def get_index_def key_eq_def Let_def)


text \<open>
  C3, amended: when \<open>index_sdk\<close> returns an index, it has installed that index in the store
  under the SDK identifier, and the entry of every other identifier is as before.
\<close>

theorem index_sdk_installs:
  assumes "index_sdk w indices sdk_id cfg = (indices', Return index)"
  shows "get_index indices' (PStr sdk_id) = Some index
       \<and> (\<forall>k. \<not> key_eq (PStr sdk_id) k \<longrightarrow> get_index indices' k = get_index indices k)"
  using assms
  by (auto simp: index_sdk_def get_index_def store_get_store_set key_eq_def Let_def
      split: option.splits)

theorem index_sdk_installs_witness:
  "index_sdk empty_sdk [] ''sdk'' default_config = ([(PStr ''sdk'', empty_index)], Return empty_index)
   \<and> get_index [(PStr ''sdk'', empty_index)] (PStr ''sdk'') = Some empty_index
   \<and> get_index [(PStr ''sdk'', empty_index)] (PStr ''other'') = get_index [] (PStr ''other'')"
  using index_sdk_installs [of empty_sdk "[]" "''sdk''" default_config
      "[(PStr ''sdk'', empty_index)]" empty_index]
  by (simp add: index_sdk_def empty_sdk_def default_config_def empty_index_def get_index_def
      key_eq_def Let_def)

section \<open>Results about saving and loading\<close>

lemma load_records_append:
  "load_records (xs @ ys) st =
     (case load_records xs st of
        (st1, Return u) \<Rightarrow> load_records ys st1
      | (st1, Raise e) \<Rightarrow> (st1, Raise e))"
  by (induction xs arbitrary: st)
     (auto split: record_file.splits outcome.splits prod.splits)

text \<open>
  C4, as stated: a directory with a malformed record and well-formed ones loads all the
  well-formed ones without raising. With a first record that is not JSON, the load
  raises and the second record, which is well formed, is not loaded.
\<close>

theorem load_indices_aborts:
  "load_indices (Some [(''a_index.json'', NotJson), (''b_index.json'', JsonText empty_index)]) []
     = ([], Raise JSONDecodeError)"
  by (simp add: load_indices_def glob_index_files_def is_index_file_def endswith_def)

text \<open>
  C4, amended: a record that decodes to a dictionary without a true value at \<open>sdk_id\<close> is
  skipped, and the load goes on as if the record were not there. A record that is not
  JSON makes the load raise when it is reached: the records enumerated before it stay
  loaded, and those after it are not loaded.
\<close>

theorem load_indices_malformed:
  "(glob_index_files d = pre @ (name, JsonText index) # post
      \<and> py_get index ''sdk_id'' PNone = Return v \<and> \<not> truthy v \<longrightarrow>
      load_indices (Some d) st = load_records (pre @ post) st)
   \<and> (glob_index_files d' = pre @ (name, NotJson) # post
      \<and> load_records pre st = (st1, Return ()) \<longrightarrow>
      load_indices (Some d') st = (st1, Raise JSONDecodeError))"
  by (auto simp: load_indices_def load_records_append split: prod.splits outcome.splits)

theorem load_indices_malformed_witness:
  "load_indices (Some [(''a_index.json'', JsonText empty_index),
                       (''b_index.json'', JsonText (PDict [(''name'', PStr ''b'')])),
                       (''c_index.json'', JsonText (PDict [(''sdk_id'', PStr ''c'')]))]) []
     = ([(PStr ''sdk'', empty_index), (PStr ''c'', PDict [(''sdk_id'', PStr ''c'')])], Return ())
   \<and> load_indices (Some [(''a_index.json'', JsonText empty_index),
                         (''b_index.json'', NotJson),
                         (''c_index.json'', JsonText (PDict [(''sdk_id'', PStr ''c'')]))]) []
     = ([(PStr ''sdk'', empty_index)], Raise JSONDecodeError)"
  using load_indices_malformed [of
      "[(''a_index.json'', JsonText empty_index),
        (''b_index.json'', JsonText (PDict [(''name'', PStr ''b'')])),
        (''c_index.json'', JsonText (PDict [(''sdk_id'', PStr ''c'')]))]"
      "[(''a_index.json'', JsonText empty_index)]" "''b_index.json''"
      "PDict [(''name'', PStr ''b'')]"
      "[(''c_index.json'', JsonText (PDict [(''sdk_id'', PStr ''c'')]))]"
      PNone "[]"
      "[(''a_index.json'', JsonText empty_index),
        (''b_index.json'', NotJson),
        (''c_index.json'', JsonText (PDict [(''sdk_id'', PStr ''c'')]))]"
      "[(PStr ''sdk'', empty_index)]"]
  by (simp add: glob_index_files_def is_index_file_def endswith_def py_get_def empty_index_def
      key_eq_def)










lemma map_of_store_set:
  "map_of (map norm_entry (store_set st k v)) = (map_of (map norm_entry st))(key_norm k \<mapsto> v)"
  by (induction st) (auto simp: key_eq_def norm_entry_def)






lemma index_sdk_entry_ok:
  assumes "index_sdk w indices sdk_id cfg = (indices', Return index)"
    and "sdk_id \<noteq> []" and "CHR ''/'' \<notin> set sdk_id"
  shows "store_entry_ok (PStr sdk_id, index)"
  using assms
  by (auto simp: index_sdk_def store_entry_ok_def py_get_def Let_def split: option.splits)




section \<open>Results about the search engine\<close>

text \<open>With a cap of at least 1, a file never gets more matches than the cap.\<close>

lemma scan_lines_bound:
  assumes "1 \<le> max_results" "int (length matches) < max_results"
  shows "int (length (scan_lines pattern cs max_results n lines failure matches)) \<le> max_results"
  using assms(2)
proof (induction lines arbitrary: n matches)
  case Nil
  then show ?case using assms(1) by (simp split: option.splits)
next
  case (Cons line lines)
  show ?case
  proof (cases "line_matches line pattern cs")
    case False
    then show ?thesis using Cons by simp
  next
    case True
    let ?m = "matches @ [''Line '' @ str_nat n @ '': '' @ strip line]"
    show ?thesis
    proof (cases "int (length ?m) \<ge> max_results")
      case True
      with Cons.prems \<open>line_matches line pattern cs\<close> show ?thesis by (simp add: Let_def)
    next
      case False
      then have "int (length ?m) < max_results" by simp
      from Cons.IH [OF this] False \<open>line_matches line pattern cs\<close> show ?thesis
        by (simp add: Let_def)
    qed
  qed
qed

lemma search_file_bound:
  "1 \<le> max_results \<Longrightarrow> int (length (search_file doc pattern cs max_results)) \<le> max_results"
  by (cases doc) (simp add: scan_lines_bound)

lemma results_ok_dict_set:
  assumes "results_ok n rs" "int (length m) \<le> n"
  shows "results_ok n (dict_set rs k m)"
proof -
  have sub: "set (AList.update k m rs) \<subseteq> insert (k, m) (set rs)"
    by (induction rs) auto
  have "int (length (snd e)) \<le> n" if "e \<in> set (AList.update k m rs)" for e
    using that sub assms by (auto simp: results_ok_def)
  moreover have "distinct (map fst (AList.update k m rs))"
    using assms(1) by (simp add: results_ok_def distinct_update)
  ultimately show ?thesis
    by (simp add: results_ok_def dict_set_def)
qed

lemma search_files_ok:
  assumes "1 \<le> n" "results_ok n rs" "search_files dir pattern cs n infos rs = Return out"
  shows "results_ok n out"
  using assms(2,3)
proof (induction infos arbitrary: rs)
  case Nil
  then show ?case by simp
next
  case (Cons info infos)
  from Cons.prems(2) obtain rs' where
    run: "search_files dir pattern cs n infos rs' = Return out"
    and rs': "rs' = rs \<or> (\<exists>k doc. rs' = dict_set rs k (search_file doc pattern cs n))"
    by (auto simp: Let_def split: outcome.splits if_splits pyval.splits option.splits)
  from rs' Cons.prems(1) have "results_ok n rs'"
    using results_ok_dict_set search_file_bound [OF assms(1)] by blast
  with run show ?case by (rule Cons.IH [rotated])
qed

lemma search_code_ok:
  assumes "search_code w indices sdk_id query options = Return out"
    and "1 \<le> n" "opt_max_results_per_file options = Some n"
  shows "results_ok n out"
proof -
  have empty: "results_ok n []" by (simp add: results_ok_def)
  have err: "results_ok n [(''error'', [''Invalid regex pattern''])]"
    using assms(2) by (simp add: results_ok_def)
  show ?thesis
    using assms(1,3) empty err search_files_ok [OF assms(2) empty]
    by (auto simp: search_code_def Let_def
        split: option.splits if_splits pyval.splits outcome.splits re_result.splits)
qed


text \<open>
  C9: the claim says that the matches returned for a file are never more than
  \<open>maxMatchesPerFile\<close>. The cap is tested after a match has been appended, so with the cap
  0 the search still returns one match for a file that has a matching line.
\<close>

theorem search_code_zero_cap:
  "search_code example_world widget_store (PStr ''sdk'') ''widget''
       \<lparr>opt_case_sensitive = None, opt_max_results_per_file = Some 0, opt_regex = None\<rparr>
     = Return [(''sdk_widget.md'', [''Line 1: # widget.py''])]"
  by code_simp

text \<open>
  C5, as stated: the matches that \<open>find_examples\<close> returns for a file have no duplicates.
  The line \<open>def run(self):\<close> matches both the declaration pattern and the call pattern,
  and is returned twice for its file.
\<close>

theorem find_examples_duplicates:
  "find_examples example_world widget_store ''sdk'' ''run''
     = Return [(''sdk_widget.md'', [''Line 8: def run(self):'', ''Line 8: def run(self):''])]"
  by code_simp

lemma map_of_extend_results:
  assumes "distinct (map fst rs)"
  shows "map_of (extend_results all_results rs) file =
     (case map_of rs file of
        None \<Rightarrow> map_of all_results file
      | Some m \<Rightarrow> Some ((case map_of all_results file of None \<Rightarrow> [] | Some found \<Rightarrow> found) @ m))"
  using assms
proof (induction rs arbitrary: all_results)
  case Nil
  then show ?case by simp
next
  case (Cons e rs)
  obtain f m where e: "e = (f, m)" by (cases e)
  from Cons.prems e have f: "map_of rs f = None" and d: "distinct (map fst rs)"
    by (auto simp: map_of_eq_None_iff)
  show ?case
    using f by (auto simp: e Cons.IH [OF d] dict_set_def update_conv' split: option.splits)
qed

lemma matches_of_empty: "matches_of [] file = []"
  by (simp add: matches_of_def)

lemma run_patterns_concat:
  assumes "\<forall>p \<in> set ps. search_code w indices (PStr sdk_id) p example_options = Return (r p)"
  shows "\<exists>out. run_patterns w indices sdk_id ps all_results = Return out
     \<and> (\<forall>file. map_of out file =
           (if map_of all_results file = None \<and> (\<forall>p \<in> set ps. map_of (r p) file = None) then None
            else Some (matches_of all_results file @ concat (map (\<lambda>p. matches_of (r p) file) ps))))"
  using assms
proof (induction ps arbitrary: all_results)
  case Nil
  then show ?case by (auto simp: matches_of_def)
next
  case (Cons p ps)
  then have p: "search_code w indices (PStr sdk_id) p example_options = Return (r p)"
    and rest: "\<forall>p \<in> set ps. search_code w indices (PStr sdk_id) p example_options = Return (r p)"
    by simp_all
  have "results_ok 5 (r p)"
    using p by (rule search_code_ok) (simp_all add: example_options_def)
  then have d: "distinct (map fst (r p))" by (simp add: results_ok_def)
  from Cons.IH [OF rest, of "extend_results all_results (r p)"]
  obtain out where out: "run_patterns w indices sdk_id ps (extend_results all_results (r p)) = Return out"
    and get: "\<And>file. map_of out file =
           (if map_of (extend_results all_results (r p)) file = None
                 \<and> (\<forall>p \<in> set ps. map_of (r p) file = None) then None
            else Some (matches_of (extend_results all_results (r p)) file
                       @ concat (map (\<lambda>p. matches_of (r p) file) ps)))"
    by blast
  have "run_patterns w indices sdk_id (p # ps) all_results = Return out"
    using p out by simp
  moreover have "map_of out fname =
           (if map_of all_results fname = None \<and> (\<forall>q \<in> set (p # ps). map_of (r q) fname = None) then None
            else Some (matches_of all_results fname
                       @ concat (map (\<lambda>p. matches_of (r p) fname) (p # ps))))" for fname
    unfolding get
    by (auto simp: matches_of_def map_of_extend_results [OF d] split: option.splits)
  ultimately show ?case by blast
qed

text \<open>
  C5, amended: \<open>find_examples\<close> runs the five pattern queries through \<open>search_code\<close> in
  regex mode with the cap 5. When each query returns, a file is in the result exactly
  when some query has it, and its matches are the concatenation, in the order of the
  patterns, of the matches that the queries have for it: nothing is removed, so a line
  that matches several patterns is there several times. No query has more than 5 matches
  for a file.
\<close>

theorem find_examples_concat:
  assumes "\<forall>p \<in> set (example_patterns topic).
             search_code w indices (PStr sdk_id) p example_options = Return (r p)"
  shows "\<exists>out. find_examples w indices sdk_id topic = Return out
     \<and> (\<forall>file. map_of out file =
           (if \<forall>p \<in> set (example_patterns topic). map_of (r p) file = None then None
            else Some (concat (map (\<lambda>p. matches_of (r p) file) (example_patterns topic)))))
     \<and> (\<forall>p \<in> set (example_patterns topic). \<forall>file. length (matches_of (r p) file) \<le> 5)"
proof -
  from run_patterns_concat [OF assms, of "[]"]
  obtain out where out: "run_patterns w indices sdk_id (example_patterns topic) [] = Return out"
    and get: "\<And>fname. map_of out fname =
           (if map_of ([] :: results) fname = None
                 \<and> (\<forall>p \<in> set (example_patterns topic). map_of (r p) fname = None) then None
            else Some (matches_of [] fname
                       @ concat (map (\<lambda>p. matches_of (r p) fname) (example_patterns topic))))"
    by blast
  have "find_examples w indices sdk_id topic = Return out"
    using out by (simp add: find_examples_def)
  moreover have "map_of out fname =
           (if \<forall>p \<in> set (example_patterns topic). map_of (r p) fname = None then None
            else Some (concat (map (\<lambda>p. matches_of (r p) fname) (example_patterns topic))))" for fname
    using get [of fname] by (simp add: matches_of_empty)
  moreover have "length (matches_of (r p) fname) \<le> 5" if "p \<in> set (example_patterns topic)" for p fname
  proof -
    from assms that
    have "search_code w indices (PStr sdk_id) p example_options = Return (r p)" by blast
    then have "results_ok 5 (r p)"
      by (rule search_code_ok) (simp_all add: example_options_def)
    then show ?thesis
      by (auto simp: results_ok_def matches_of_def split: option.splits dest!: map_of_SomeD)
  qed
  ultimately show ?thesis by blast
qed

theorem find_examples_concat_witness:
  "\<exists>out. find_examples example_world widget_store ''sdk'' ''run'' = Return out
     \<and> map_of out ''sdk_widget.md'' = Some ([''Line 8: def run(self):''] @ [''Line 8: def run(self):''])
     \<and> map_of out ''sdk_other.md'' = None"
proof -
  let ?r = "\<lambda>p. if p = ''def.*run'' \<or> p = ''run'' @ [CHR 0x5C] @ ''s*'' @ [CHR 0x5C] @ ''(''
                then [(''sdk_widget.md'', [''Line 8: def run(self):''])] else []"
  have "search_code example_world widget_store (PStr ''sdk'') ''def.*run'' example_options
          = Return [(''sdk_widget.md'', [''Line 8: def run(self):''])]"
    by code_simp
  moreover have "search_code example_world widget_store (PStr ''sdk'') ''class.*run'' example_options
          = Return []"
    by code_simp
  moreover have "search_code example_world widget_store (PStr ''sdk'')
          (''run'' @ [CHR 0x5C] @ ''s*'' @ [CHR 0x5C] @ ''('') example_options
          = Return [(''sdk_widget.md'', [''Line 8: def run(self):''])]"
    by code_simp
  moreover have "search_code example_world widget_store (PStr ''sdk'') ''@run'' example_options
          = Return []"
    by code_simp
  moreover have "search_code example_world widget_store (PStr ''sdk'')
          (''self'' @ [CHR 0x5C] @ ''.run'') example_options = Return []"
    by code_simp
  ultimately have h: "\<forall>p \<in> set (example_patterns ''run'').
      search_code example_world widget_store (PStr ''sdk'') p example_options = Return (?r p)"
    by (simp add: example_patterns_def)
  from find_examples_concat [OF h]
  obtain out where "find_examples example_world widget_store ''sdk'' ''run'' = Return out"
    and "\<And>fname. map_of out fname =
           (if \<forall>p \<in> set (example_patterns ''run''). map_of (?r p) fname = None then None
            else Some (concat (map (\<lambda>p. matches_of (?r p) fname) (example_patterns ''run''))))"
    by blast
  then show ?thesis
    by (simp add: example_patterns_def matches_of_def)
qed

lemma key_eq_refl: "key_eq k k"
  by (simp add: key_eq_def)

lemma store_get_Some_truthy:
  assumes "list_all (\<lambda>e. truthy (snd e)) st" "store_get st k = Some v"
  shows "truthy v"
  using assms by (induction st) (auto split: if_splits)

lemma store_get_None_iff: "store_get st k = None \<longleftrightarrow> (\<forall>k' \<in> fst ` set st. \<not> key_eq k' k)"
proof (induction st)
  case Nil
  then show ?case by simp
next
  case (Cons e st)
  obtain k0 v0 where e: "e = (k0, v0)" by (cases e)
  show ?case using Cons.IH by (simp add: e)
qed

lemma search_code_invalid_regex:
  assumes "\<forall>ic. re_compile w query ic = ReError" and "opt_regex options = Some True"
    and "list_all (\<lambda>e. truthy (snd e)) indices" and "k \<in> fst ` set indices"
  shows "search_code w indices k query options = Return [(''error'', [''Invalid regex pattern''])]"
proof -
  from assms(4) have "store_get indices k \<noteq> None"
    using key_eq_refl by (auto simp: store_get_None_iff)
  then obtain v where v: "store_get indices k = Some v" by blast
  with assms(3) have "truthy v" by (rule store_get_Some_truthy)
  with v assms(1,2) show ?thesis
    by (simp add: search_code_def get_index_def Let_def)
qed

lemma search_sdks_invalid_regex:
  assumes "\<forall>ic. re_compile w query ic = ReError" and "opt_regex options = Some True"
    and "list_all (\<lambda>e. truthy (snd e)) indices" and "set ks \<subseteq> fst ` set indices"
  shows "search_sdks w indices query options ks acc
       = Return (fold (\<lambda>k acc. store_set acc k error_results) ks acc)"
  using assms(4)
proof (induction ks arbitrary: acc)
  case Nil
  then show ?case by simp
next
  case (Cons k ks)
  from Cons.prems have k: "k \<in> fst ` set indices" and ks: "set ks \<subseteq> fst ` set indices"
    by simp_all
  have "search_code w indices k query options = Return error_results"
    unfolding error_results_def using assms(1-3) k by (rule search_code_invalid_regex)
  then show ?case
    using Cons.IH [OF ks] by (simp add: error_results_def)
qed

lemma store_get_fold_set:
  "store_get (fold (\<lambda>k acc. store_set acc k v) ks acc) k =
     (if \<exists>k' \<in> set ks. key_eq k' k then Some v else store_get acc k)"
  by (induction ks arbitrary: acc) (auto simp: store_get_store_set)

text \<open>
  C10: let the query be a malformed regular expression, searched in regex mode through
  \<open>search_all_sdks\<close>, in a store whose indices are true values, as every index is that
  \<open>index_sdk\<close> or \<open>load_indices\<close> has put there. Then the search returns, every identifier
  that has an index in the store is mapped to the single-entry error result and no other
  identifier is in the result, and the result is the same whatever the document
  directories are.
\<close>

theorem search_all_sdks_invalid_regex:
  assumes "\<forall>ic. re_compile w query ic = ReError" and "opt_regex options = Some True"
    and "list_all (\<lambda>e. truthy (snd e)) indices"
  shows "\<exists>out. search_all_sdks w indices query options = Return out
     \<and> (\<forall>k. store_get out k =
           (if get_index indices k = None then None
            else Some [(''error'', [''Invalid regex pattern''])]))
     \<and> (\<forall>d. search_all_sdks (w\<lparr>docs := d\<rparr>) indices query options = Return out)"
proof -
  let ?out = "fold (\<lambda>k acc. store_set acc k error_results) (map fst indices) []"
  have run: "search_all_sdks w' indices query options = Return ?out"
    if "\<forall>ic. re_compile w' query ic = ReError" for w'
    using search_sdks_invalid_regex [OF that assms(2,3), of "map fst indices" "[]"]
    by (simp add: search_all_sdks_def)
  have "search_all_sdks w indices query options = Return ?out"
    using assms(1) by (rule run)
  moreover have "store_get ?out k =
           (if get_index indices k = None then None
            else Some [(''error'', [''Invalid regex pattern''])])" for k
    by (simp add: store_get_fold_set get_index_def store_get_None_iff error_results_def)
  moreover have "search_all_sdks (w\<lparr>docs := d\<rparr>) indices query options = Return ?out" for d
    using assms(1) by (intro run) simp
  ultimately show ?thesis by blast
qed

theorem search_all_sdks_invalid_regex_witness:
  "\<exists>out. search_all_sdks example_world widget_store ''(''
       \<lparr>opt_case_sensitive = None, opt_max_results_per_file = None, opt_regex = Some True\<rparr>
         = Return out
     \<and> store_get out (PStr ''sdk'') = Some [(''error'', [''Invalid regex pattern''])]
     \<and> store_get out (PStr ''other'') = None"
proof -
  let ?opts = "\<lparr>opt_case_sensitive = None, opt_max_results_per_file = None, opt_regex = Some True\<rparr>"
  have a: "\<forall>ic. re_compile example_world ''('' ic = ReError"
    by (simp add: example_world_def example_re_def example_table_def)
  have b: "opt_regex ?opts = Some True" by simp
  have c: "list_all (\<lambda>e. truthy (snd e)) widget_store"
    by (simp add: widget_store_def index_sdk_def Let_def widget_sdk_def default_config_def)
  have d: "get_index widget_store (PStr ''sdk'') \<noteq> None"
    "get_index widget_store (PStr ''other'') = None"
    by (simp_all add: widget_store_def index_sdk_def Let_def widget_sdk_def default_config_def
        get_index_def key_eq_def)
  from search_all_sdks_invalid_regex [OF a b c]
  obtain out where "search_all_sdks example_world widget_store ''('' ?opts = Return out"
    and "\<And>k. store_get out k =
           (if get_index widget_store k = None then None
            else Some [(''error'', [''Invalid regex pattern''])])"
    by blast
  with d show ?thesis by simp
qed

text \<open>The indices that \<open>index_sdk\<close> and \<open>load_indices\<close> put in the store are true values.\<close>

lemma store_set_all:
  assumes "list_all P st" "P (k, v)" "\<And>k' v'. P (k', v') \<Longrightarrow> P (k', v)"
  shows "list_all P (store_set st k v)"
  using assms(1) by (induction st) (auto intro: assms(2,3))

lemma index_sdk_truthy:
  assumes "index_sdk w indices sdk_id cfg = (indices', out)"
    and "list_all (\<lambda>e. truthy (snd e)) indices"
  shows "list_all (\<lambda>e. truthy (snd e)) indices'"
  using assms
  by (auto simp: index_sdk_def Let_def split: option.splits intro!: store_set_all)

lemma load_records_truthy:
  assumes "list_all (\<lambda>e. truthy (snd e)) st"
  shows "list_all (\<lambda>e. truthy (snd e)) (fst (load_records files st))"
  using assms
proof (induction files arbitrary: st)
  case Nil
  then show ?case by simp
next
  case (Cons f files)
  obtain name content where f: "f = (name, content)" by (cases f)
  have step: "list_all (\<lambda>e. truthy (snd e)) (store_set st sdk_id index)"
    if "py_get index ''sdk_id'' PNone = Return sdk_id" "truthy sdk_id" for index sdk_id
  proof -
    from that have "truthy index"
      by (cases index) (auto simp: py_get_def split: option.splits)
    with Cons.prems show ?thesis by (intro store_set_all) simp_all
  qed
  show ?case
    using Cons.prems Cons.IH step
    by (auto simp: f split: record_file.splits outcome.splits)
qed

end
